theory Spec2Isabelle
  imports Main "HOL-Library.Word"
begin

section \<open>CrossCloudSync: replication of one S3 object to a GCS bucket\<close>

text \<open>
  The development embeds \<^verbatim>\<open>src/app/replicator.py\<close>. The function
  \<^verbatim>\<open>replicate_file\<close> talks to two store clients that are built in
  \<^verbatim>\<open>src/app/config.py\<close> from third-party libraries. Their observable behaviour
  is the environment of the function: an in-memory S3 store, an in-memory GCS bucket, and
  a script of injected faults that decides, call by call, whether a client call raises.
\<close>

subsection \<open>Data\<close>

type_synonym byte = "8 word"
type_synonym bytes = "byte list"

text \<open>
  Python exceptions. \<open>ClientError code message\<close> is botocore's error with
  \<^verbatim>\<open>e.response['Error']['Code']\<close> and its text,
  \<open>ParamValidationError\<close> is what the S3 client raises when it refuses the
  arguments of a call, and \<open>RetryError e\<close> is what the retry decorator raises once
  it gives up after the exception \<open>e\<close>.
\<close>

datatype exn =
  ClientError string string
| GoogleAPIError string
| ValueError string
| TypeError string
| ParamValidationError string
| OtherException string
| RetryError exn

text \<open>\<^verbatim>\<open>str(e)\<close>, used when the upload error is wrapped.\<close>

fun exn_str :: "exn \<Rightarrow> string" where
  "exn_str (ClientError code msg) = msg"
| "exn_str (GoogleAPIError msg) = msg"
| "exn_str (ValueError msg) = msg"
| "exn_str (TypeError msg) = msg"
| "exn_str (ParamValidationError msg) = msg"
| "exn_str (OtherException msg) = msg"
| "exn_str (RetryError e) = ''RetryError''"

text \<open>
  An S3 object as \<^verbatim>\<open>head_object\<close> and \<^verbatim>\<open>get_object\<close> show it: the
  \<^verbatim>\<open>ETag\<close> header (with its surrounding double quotes), the optional
  \<^verbatim>\<open>ContentType\<close> and the bytes of the body.
\<close>

record s3_object =
  ETag :: string
  ContentType :: "string option"
  Body :: bytes

text \<open>
  A GCS blob: its bytes, its content type and its \<^verbatim>\<open>md5_hash\<close> property. The
  property is kept in the form line 37 compares, that is after
  \<^verbatim>\<open>base64.b64decode(...).hex()\<close>; a blob without an MD5 has \<open>None\<close>.
\<close>

record gcs_blob =
  blob_data :: bytes
  blob_content_type :: string
  md5_hash :: "string option"

text \<open>What the function does to the outside, in order: store calls and log lines.\<close>

datatype event =
  LogStarting
| LogMultipartETag
| LogIdempotentSkip
| LogUploadFailed
| LogUploaded
| LogChecksumMismatch
| LogComplete
| S3Head string string
| S3Get string string
| S3Read
| GcsExists string
| GcsReload string
| GcsUpload string
| GcsDelete string
| Backoff nat

text \<open>
  What a client call can go wrong with: an error response of the service (with its error
  code and text), which the S3 client raises as \<^verbatim>\<open>ClientError\<close> and the GCS
  client as \<^verbatim>\<open>GoogleAPIError\<close>, or an error of the client library itself
  (parameter validation, a broken connection), which is of neither class.
\<close>

datatype fault =
  ServiceFault string string
| LibraryFault string

fun s3_raise :: "fault \<Rightarrow> exn" where
  "s3_raise (ServiceFault code msg) = ClientError code msg"
| "s3_raise (LibraryFault msg) = OtherException msg"

fun gcs_raise :: "fault \<Rightarrow> exn" where
  "gcs_raise (ServiceFault code msg) = GoogleAPIError msg"
| "gcs_raise (LibraryFault msg) = OtherException msg"

text \<open>
  The world around one call: both stores, the name of the target bucket, the function
  computed by \<^verbatim>\<open>hashlib.md5(...).hexdigest()\<close> (a parameter: the library is not
  part of the repository), the faults still to be injected (one entry is consumed by each
  request a client sends, \<open>None\<close> lets the request through, an exhausted script lets
  every request through) and the events so far, oldest first.
\<close>

record world =
  s3_contents :: "string \<times> string \<Rightarrow> s3_object option"
  gcs_blobs :: "string \<Rightarrow> gcs_blob option"
  gcs_bucket_name :: string
  md5_hexdigest :: "bytes \<Rightarrow> string"
  faults :: "fault option list"
  events :: "event list"

type_synonym 'a outcome = "(exn + 'a) \<times> world"

text \<open>
  The objects of the S3 store by bucket and key. A key of S3 has at least one character,
  so there is no object under the empty key.
\<close>

definition s3_objects :: "world \<Rightarrow> string \<times> string \<Rightarrow> s3_object option" where
  "s3_objects w p = (if snd p = [] then None else s3_contents w p)"

subsection \<open>The store clients\<close>

definition emit :: "event \<Rightarrow> world \<Rightarrow> world" where
  "emit ev w = w\<lparr>events := events w @ [ev]\<rparr>"

definition next_fault :: "world \<Rightarrow> fault option \<times> world" where
  "next_fault w =
     (case faults w of
        [] \<Rightarrow> (None, w)
      | f # fs \<Rightarrow> (f, w\<lparr>faults := fs\<rparr>))"

text \<open>
  The S3 client checks the arguments of every call before it sends anything: a key must
  have at least one character, and a call with the empty key raises
  \<^verbatim>\<open>ParamValidationError\<close> without a request to the store.
\<close>

definition invalid_key :: exn where
  "invalid_key = ParamValidationError
     ''Invalid length for parameter Key, value: 0, valid min length: 1''"

text \<open>\<^verbatim>\<open>s3_client.head_object(Bucket=b, Key=k)\<close>; the result is the ETag header.\<close>

definition head_object :: "string \<Rightarrow> string \<Rightarrow> world \<Rightarrow> string outcome" where
  "head_object b k w =
     (if k = [] then (Inl invalid_key, w)
      else case next_fault (emit (S3Head b k) w) of
        (Some f, w1) \<Rightarrow> (Inl (s3_raise f), w1)
      | (None, w1) \<Rightarrow>
          (case s3_objects w1 (b, k) of
             None \<Rightarrow> (Inl (ClientError ''404'' ''Not Found''), w1)
           | Some obj \<Rightarrow> (Inr (ETag obj), w1)))"

text \<open>\<^verbatim>\<open>s3_client.get_object(Bucket=b, Key=k)\<close>: the body stream and the content type.\<close>

definition get_object :: "string \<Rightarrow> string \<Rightarrow> world \<Rightarrow> (bytes \<times> string option) outcome" where
  "get_object b k w =
     (if k = [] then (Inl invalid_key, w)
      else case next_fault (emit (S3Get b k) w) of
        (Some f, w1) \<Rightarrow> (Inl (s3_raise f), w1)
      | (None, w1) \<Rightarrow>
          (case s3_objects w1 (b, k) of
             None \<Rightarrow> (Inl (ClientError ''NoSuchKey'' ''The specified key does not exist.''), w1)
           | Some obj \<Rightarrow> (Inr (Body obj, ContentType obj), w1)))"

text \<open>
  \<^verbatim>\<open>body.read(amt)\<close> on what is left of the stream: the next \<open>amt\<close> bytes (fewer
  at the end, none after it) and the rest of the stream.
\<close>

definition body_read :: "bytes \<Rightarrow> nat \<Rightarrow> world \<Rightarrow> (bytes \<times> bytes) outcome" where
  "body_read stream amt w =
     (case next_fault (emit S3Read w) of
        (Some f, w1) \<Rightarrow> (Inl (s3_raise f), w1)
      | (None, w1) \<Rightarrow> (Inr (take amt stream, drop amt stream), w1))"

text \<open>\<^verbatim>\<open>gcs_blob.exists()\<close>\<close>

definition blob_exists :: "string \<Rightarrow> world \<Rightarrow> bool outcome" where
  "blob_exists k w =
     (case next_fault (emit (GcsExists k) w) of
        (Some f, w1) \<Rightarrow> (Inl (gcs_raise f), w1)
      | (None, w1) \<Rightarrow> (Inr (gcs_blobs w1 k \<noteq> None), w1))"

text \<open>\<^verbatim>\<open>gcs_blob.reload()\<close>; the result is the \<^verbatim>\<open>md5_hash\<close> the blob then has.\<close>

definition blob_reload :: "string \<Rightarrow> world \<Rightarrow> string option outcome" where
  "blob_reload k w =
     (case next_fault (emit (GcsReload k) w) of
        (Some f, w1) \<Rightarrow> (Inl (gcs_raise f), w1)
      | (None, w1) \<Rightarrow>
          (case gcs_blobs w1 k of
             None \<Rightarrow> (Inl (GoogleAPIError ''404 Not Found''), w1)
           | Some blob \<Rightarrow> (Inr (md5_hash blob), w1)))"

text \<open>
  \<^verbatim>\<open>gcs_blob.upload_from_file(spool, content_type=ct)\<close>: the blob at \<open>k\<close> is
  replaced by the bytes of the spool; the store records their MD5.
\<close>

definition upload_from_file :: "string \<Rightarrow> bytes \<Rightarrow> string \<Rightarrow> world \<Rightarrow> unit outcome" where
  "upload_from_file k spool ct w =
     (case next_fault (emit (GcsUpload k) w) of
        (Some f, w1) \<Rightarrow> (Inl (gcs_raise f), w1)
      | (None, w1) \<Rightarrow>
          (Inr (), w1\<lparr>gcs_blobs := (gcs_blobs w1)
             (k \<mapsto> \<lparr>blob_data = spool, blob_content_type = ct,
                     md5_hash = Some (md5_hexdigest w1 spool)\<rparr>)\<rparr>))"

text \<open>\<^verbatim>\<open>gcs_blob.delete()\<close>\<close>

definition blob_delete :: "string \<Rightarrow> world \<Rightarrow> unit outcome" where
  "blob_delete k w =
     (case next_fault (emit (GcsDelete k) w) of
        (Some f, w1) \<Rightarrow> (Inl (gcs_raise f), w1)
      | (None, w1) \<Rightarrow>
          (case gcs_blobs w1 k of
             None \<Rightarrow> (Inl (GoogleAPIError ''404 Not Found''), w1)
           | Some blob \<Rightarrow> (Inr (), w1\<lparr>gcs_blobs := (gcs_blobs w1)(k := None)\<rparr>)))"

subsection \<open>\<^verbatim>\<open>replicate_file\<close>, phase by phase\<close>

text \<open>\<^verbatim>\<open>s.strip('"')\<close>: the double quotes at both ends go.\<close>

definition strip_quotes :: "string \<Rightarrow> string" where
  "strip_quotes s =
     rev (dropWhile (\<lambda>c. c = CHR 0x22) (rev (dropWhile (\<lambda>c. c = CHR 0x22) s)))"

text \<open>\<^verbatim>\<open>'-' in s3_etag\<close>\<close>

definition multipart :: "string \<Rightarrow> bool" where
  "multipart s3_etag = (CHR ''-'' \<in> set s3_etag)"

text \<open>Lines 29 to 32: the handler of \<^verbatim>\<open>ClientError\<close> around the metadata lookup.\<close>

fun except_ClientError :: "exn \<Rightarrow> exn" where
  "except_ClientError (ClientError code msg) =
     (if code = ''404'' then ValueError ''S3 object not found'' else ClientError code msg)"
| "except_ClientError e = e"

text \<open>Lines 24 to 32: the source's ETag, or the exception raised.\<close>

definition check_source :: "string \<Rightarrow> string \<Rightarrow> world \<Rightarrow> string outcome" where
  "check_source s3_bucket s3_key w =
     (case head_object s3_bucket s3_key w of
        (Inl e, w1) \<Rightarrow> (Inl (except_ClientError e), w1)
      | (Inr etag, w1) \<Rightarrow>
          (let s3_etag = strip_quotes etag
           in (Inr s3_etag, if multipart s3_etag then emit LogMultipartETag w1 else w1)))"

text \<open>
  Lines 34 to 40: \<open>True\<close> when the function returns the idempotent skip, \<open>False\<close>
  when it goes on to the transfer.
\<close>

definition check_destination :: "string \<Rightarrow> string \<Rightarrow> world \<Rightarrow> bool outcome" where
  "check_destination s3_key s3_etag w =
     (case blob_exists s3_key w of
        (Inl e, w1) \<Rightarrow> (Inl e, w1)
      | (Inr False, w1) \<Rightarrow> (Inr False, w1)
      | (Inr True, w1) \<Rightarrow>
          (case blob_reload s3_key w1 of
             (Inl e, w2) \<Rightarrow> (Inl e, w2)
           | (Inr None, w2) \<Rightarrow> (Inl (TypeError ''b64decode''), w2)
           | (Inr (Some gcs_md5_hex), w2) \<Rightarrow>
               if gcs_md5_hex = s3_etag \<or> multipart s3_etag
               then (Inr True, emit LogIdempotentSkip w2)
               else (Inr False, w2)))"

text \<open>
  Lines 49 to 51: the loop over the chunks of 64 KiB. The hasher is the sequence of bytes
  it was fed (its digest is the MD5 of that sequence), the spool the bytes written to it.
\<close>

function read_chunks :: "bytes \<Rightarrow> bytes \<Rightarrow> bytes \<Rightarrow> world \<Rightarrow> (bytes \<times> bytes) outcome" where
  "read_chunks body hasher spool w =
     (case body_read body (64 * 1024) w of
        (Inl e, w1) \<Rightarrow> (Inl e, w1)
      | (Inr (chunk, body'), w1) \<Rightarrow>
          if chunk = [] then (Inr (hasher, spool), w1)
          else read_chunks body' (hasher @ chunk) (spool @ chunk) w1)"
  by pat_completeness auto
termination
  by (relation "measure (\<lambda>(body, hasher, spool, w). length body)")
     (auto simp: body_read_def split: prod.splits option.splits)

text \<open>Lines 43 to 52: content type, hasher and spool after the download.\<close>

definition download :: "string \<Rightarrow> string \<Rightarrow> world \<Rightarrow> (string \<times> bytes \<times> bytes) outcome" where
  "download s3_bucket s3_key w =
     (case get_object s3_bucket s3_key w of
        (Inl e, w1) \<Rightarrow> (Inl e, w1)
      | (Inr (body, ct), w1) \<Rightarrow>
          (let content_type = (case ct of None \<Rightarrow> ''application/octet-stream'' | Some t \<Rightarrow> t)
           in case read_chunks body [] [] w1 of
                (Inl e, w2) \<Rightarrow> (Inl e, w2)
              | (Inr (hasher, spool), w2) \<Rightarrow> (Inr (content_type, hasher, spool), w2)))"

text \<open>Lines 54 to 59: every exception of the upload is wrapped in a \<^verbatim>\<open>ValueError\<close>.\<close>

definition upload :: "string \<Rightarrow> bytes \<Rightarrow> string \<Rightarrow> world \<Rightarrow> unit outcome" where
  "upload s3_key spool content_type w =
     (case upload_from_file s3_key spool content_type w of
        (Inl e, w1) \<Rightarrow> (Inl (ValueError (''Upload error: '' @ exn_str e)), emit LogUploadFailed w1)
      | (Inr u, w1) \<Rightarrow> (Inr (), emit LogUploaded w1))"

text \<open>Lines 61 to 69: the checksum validation and the value returned.\<close>

definition checksum_validation :: "string \<Rightarrow> string \<Rightarrow> bytes \<Rightarrow> world \<Rightarrow> string outcome" where
  "checksum_validation s3_key s3_etag hasher w =
     (let computed_md5_hex = md5_hexdigest w hasher
      in if computed_md5_hex \<noteq> s3_etag \<and> \<not> multipart s3_etag
         then (case blob_delete s3_key (emit LogChecksumMismatch w) of
                 (Inl e, w1) \<Rightarrow> (Inl e, w1)
               | (Inr u, w1) \<Rightarrow> (Inl (ValueError ''Checksum mismatch after upload''), w1))
         else (Inr (''Successfully replicated '' @ s3_key @ '' to GCS '' @ gcs_bucket_name w),
               emit LogComplete w))"

text \<open>The body of \<^verbatim>\<open>replicate_file\<close>: one attempt.\<close>

definition replicate_file_body :: "string \<Rightarrow> string \<Rightarrow> world \<Rightarrow> string outcome" where
  "replicate_file_body s3_bucket s3_key w =
     (case check_source s3_bucket s3_key (emit LogStarting w) of
        (Inl e, w1) \<Rightarrow> (Inl e, w1)
      | (Inr s3_etag, w1) \<Rightarrow>
          (case check_destination s3_key s3_etag w1 of
             (Inl e, w2) \<Rightarrow> (Inl e, w2)
           | (Inr True, w2) \<Rightarrow> (Inr ''File already replicated (idempotent skip)'', w2)
           | (Inr False, w2) \<Rightarrow>
               (case download s3_bucket s3_key w2 of
                  (Inl e, w3) \<Rightarrow> (Inl e, w3)
                | (Inr (content_type, hasher, spool), w3) \<Rightarrow>
                    (case upload s3_key spool content_type w3 of
                       (Inl e, w4) \<Rightarrow> (Inl e, w4)
                     | (Inr u, w4) \<Rightarrow> checksum_validation s3_key s3_etag hasher w4))))"

subsection \<open>The retry decorator\<close>

text \<open>\<^verbatim>\<open>retry_if_exception_type((ClientError, GoogleAPIError))\<close>\<close>

fun retry_if_exception_type :: "exn \<Rightarrow> bool" where
  "retry_if_exception_type (ClientError code msg) = True"
| "retry_if_exception_type (GoogleAPIError msg) = True"
| "retry_if_exception_type e = False"

text \<open>\<^verbatim>\<open>stop_after_attempt(n)\<close>\<close>

definition stop_after_attempt :: "nat \<Rightarrow> nat \<Rightarrow> bool" where
  "stop_after_attempt max_attempt_number attempt_number = (attempt_number \<ge> max_attempt_number)"

text \<open>
  The loop of the decorator: a result is returned, an exception that is not of the two
  retried types is raised again at once, and a retried exception either ends the loop with
  \<open>RetryError\<close> or leads, after the wait, to the next attempt. The wait of
  \<^verbatim>\<open>wait_exponential\<close> is recorded as an event, its length is not.
\<close>

function retrying :: "nat \<Rightarrow> nat \<Rightarrow> (world \<Rightarrow> 'a outcome) \<Rightarrow> world \<Rightarrow> 'a outcome" where
  "retrying max_attempt_number attempt_number fn w =
     (case fn w of
        (Inr v, w1) \<Rightarrow> (Inr v, w1)
      | (Inl e, w1) \<Rightarrow>
          if \<not> retry_if_exception_type e then (Inl e, w1)
          else if stop_after_attempt max_attempt_number attempt_number
          then (Inl (RetryError e), w1)
          else retrying max_attempt_number (attempt_number + 1) fn (emit (Backoff attempt_number) w1))"
  by pat_completeness auto
termination
  by (relation "measure (\<lambda>(m, a, fn, w). m - a)") (auto simp: stop_after_attempt_def)

definition replicate_file :: "string \<Rightarrow> string \<Rightarrow> world \<Rightarrow> string outcome" where
  "replicate_file s3_bucket s3_key = retrying 3 1 (replicate_file_body s3_bucket s3_key)"

text \<open>The number of attempts a trace shows: each attempt starts with the same log line.\<close>

definition attempts :: "world \<Rightarrow> nat" where
  "attempts w = count_list (events w) LogStarting"

subsection \<open>Notions used by the statements\<close>

text \<open>The fault that the next client call will meet.\<close>

definition pending_fault :: "world \<Rightarrow> fault option" where
  "pending_fault w = (case faults w of [] \<Rightarrow> None | f # fs \<Rightarrow> f)"

text \<open>No fault is left in the script: every client call from now on goes through.\<close>

definition fault_free :: "world \<Rightarrow> bool" where
  "fault_free w = list_all (\<lambda>f. f = None) (faults w)"

fun is_delete :: "event \<Rightarrow> bool" where
  "is_delete (GcsDelete k) = True"
| "is_delete e = False"

text \<open>From \<open>w\<close> to \<open>w'\<close> events were only added, and no delete is among them.\<close>

definition quiet :: "world \<Rightarrow> world \<Rightarrow> bool" where
  "quiet w w' = (\<exists>new. events w' = events w @ new \<and> list_all (\<lambda>e. \<not> is_delete e) new)"

text \<open>The two texts the function returns.\<close>

definition skipped :: string where
  "skipped = ''File already replicated (idempotent skip)''"

definition replicated :: "string \<Rightarrow> world \<Rightarrow> string" where
  "replicated s3_key w = ''Successfully replicated '' @ s3_key @ '' to GCS '' @ gcs_bucket_name w"

text \<open>The content type the upload carries for a source object.\<close>

definition content_type_of :: "s3_object \<Rightarrow> string" where
  "content_type_of obj =
     (case ContentType obj of None \<Rightarrow> ''application/octet-stream'' | Some t \<Rightarrow> t)"

text \<open>
  Lines 35 to 38 let the transfer go ahead: there is no blob under the key, or there is one
  whose MD5 differs from a single-part ETag.
\<close>

definition transfer_needed :: "string \<Rightarrow> gcs_blob option \<Rightarrow> bool" where
  "transfer_needed s3_etag blob =
     (case blob of
        None \<Rightarrow> True
      | Some bl \<Rightarrow>
          (case md5_hash bl of
             None \<Rightarrow> False
           | Some gcs_md5_hex \<Rightarrow> gcs_md5_hex \<noteq> s3_etag \<and> \<not> multipart s3_etag))"

subsection \<open>Worlds to run the function in\<close>

text \<open>
  A stand-in for the digest function, enough to tell the example bodies apart, and a world
  with one source object under the key \<open>''img/logo.png''\<close> of the bucket \<open>''src''\<close>.
\<close>

definition example_digest :: "bytes \<Rightarrow> string" where
  "example_digest bs = map (\<lambda>b. if b = 0 then CHR ''0'' else CHR ''f'') bs"

definition quoted :: "string \<Rightarrow> string" where
  "quoted s = CHR 0x22 # s @ [CHR 0x22]"

definition example_world :: "s3_object option \<Rightarrow> gcs_blob option \<Rightarrow> fault option list \<Rightarrow> world" where
  "example_world obj blob fs =
     \<lparr>s3_contents = (\<lambda>p. if p = (''src'', ''img/logo.png'') then obj else None),
      gcs_blobs = (\<lambda>k. if k = ''img/logo.png'' then blob else None),
      gcs_bucket_name = ''target'',
      md5_hexdigest = example_digest,
      faults = fs,
      events = []\<rparr>"

definition logo :: "string \<Rightarrow> s3_object" where
  "logo etag = \<lparr>ETag = quoted etag, ContentType = Some ''image/png'', Body = [1, 0, 2]\<rparr>"

section \<open>Properties of the phases\<close>

text \<open>
  Each phase is characterised once, for an arbitrary script of faults: what it leaves
  untouched, which events it adds and what its result says about the stores. The
  statements about a whole attempt follow by going through the phases.
\<close>

lemma s3_objects_update [simp]:
  "s3_objects (w\<lparr>gcs_blobs := g\<rparr>) = s3_objects w"
  "s3_objects (w\<lparr>faults := fs\<rparr>) = s3_objects w"
  "s3_objects (w\<lparr>events := es\<rparr>) = s3_objects w"
  by (simp_all add: s3_objects_def fun_eq_iff)

lemma s3_objects_empty_key [simp]: "s3_objects w (b, []) = None"
  by (simp add: s3_objects_def)

lemma s3_objects_key: "s3_objects w (b, k) = Some obj \<Longrightarrow> k \<noteq> []"
  by auto

lemma next_fault_eq: "next_fault w = (pending_fault w, w\<lparr>faults := tl (faults w)\<rparr>)"
  by (simp add: next_fault_def pending_fault_def split: list.splits)

lemma pending_fault_simps [simp]:
  "pending_fault (w\<lparr>events := es\<rparr>) = pending_fault w"
  "pending_fault (w\<lparr>gcs_blobs := g\<rparr>) = pending_fault w"
  by (simp_all add: pending_fault_def)

lemmas client_defs = head_object_def get_object_def body_read_def blob_exists_def blob_reload_def
  upload_from_file_def blob_delete_def next_fault_eq emit_def invalid_key_def

lemma pending_fault_faults [simp]:
  "pending_fault (w\<lparr>faults := fs\<rparr>) = (case fs of [] \<Rightarrow> None | f # x \<Rightarrow> f)"
  by (simp add: pending_fault_def)

lemma no_pending: "list_all (\<lambda>f. f = None) fs \<Longrightarrow> (case fs of [] \<Rightarrow> None | f # x \<Rightarrow> f) = None"
  by (cases fs) auto

lemma list_all_tl: "list_all P xs \<Longrightarrow> list_all P (tl xs)"
  by (cases xs) auto

lemma fault_free_pending: "fault_free w \<Longrightarrow> pending_fault w = None"
  by (simp add: fault_free_def pending_fault_def no_pending)

lemmas fault_free_simps = fault_free_pending fault_free_def no_pending list_all_tl

lemma fault_free_upd [simp]:
  "fault_free (w\<lparr>events := es\<rparr>) = fault_free w"
  "fault_free (w\<lparr>gcs_blobs := g\<rparr>) = fault_free w"
  "fault_free (w\<lparr>faults := fs\<rparr>) = list_all (\<lambda>f. f = None) fs"
  by (simp_all add: fault_free_def)

lemma body_read_result:
  "body_read body amt w = (x, w1) \<Longrightarrow>
     s3_objects w1 = s3_objects w \<and> gcs_blobs w1 = gcs_blobs w \<and>
     gcs_bucket_name w1 = gcs_bucket_name w \<and> md5_hexdigest w1 = md5_hexdigest w \<and>
     events w1 = events w @ [S3Read] \<and> (\<forall>m. x \<noteq> Inl (ValueError m)) \<and>
     (\<forall>e. x \<noteq> Inl (RetryError e)) \<and>
     (\<forall>p. x = Inr p \<longrightarrow> p = (take amt body, drop amt body)) \<and>
     (fault_free w \<longrightarrow> fault_free w1 \<and> x = Inr (take amt body, drop amt body))"
  by (auto simp: client_defs fault_free_simps split: option.splits
      elim!: s3_raise.elims)

lemma read_chunks_result:
  "read_chunks body h sp w = (r, w') \<Longrightarrow>
     s3_objects w' = s3_objects w \<and> gcs_blobs w' = gcs_blobs w \<and>
     gcs_bucket_name w' = gcs_bucket_name w \<and> md5_hexdigest w' = md5_hexdigest w \<and>
     (\<exists>n. events w' = events w @ replicate n S3Read) \<and>
     (\<forall>p. r = Inr p \<longrightarrow> p = (h @ body, sp @ body)) \<and>
     (\<forall>m. r \<noteq> Inl (ValueError m)) \<and>
     (\<forall>e. r \<noteq> Inl (RetryError e)) \<and>
     (fault_free w \<longrightarrow> fault_free w' \<and> r = Inr (h @ body, sp @ body))"
proof (induction body h sp w arbitrary: r w' rule: read_chunks.induct)
  case (1 body hasher spool w)
  obtain x w1 where br: "body_read body (64 * 1024) w = (x, w1)"
    by (cases "body_read body (64 * 1024) w")
  note fr = body_read_result[OF br]
  show ?case
  proof (cases x)
    case (Inl e)
    with br "1.prems" have "r = Inl e \<and> w' = w1"
      by (subst (asm) read_chunks.simps) auto
    with fr Inl show ?thesis
      by (auto intro: exI[of _ "Suc 0"])
  next
    case (Inr p)
    with fr have p: "p = (take (64 * 1024) body, drop (64 * 1024) body)"
      by simp
    define chunk where "chunk = take (64 * 1024) body"
    define body' where "body' = drop (64 * 1024) body"
    have p': "p = (chunk, body')"
      using p by (simp add: chunk_def body'_def)
    have app: "chunk @ body' = body"
      by (simp add: chunk_def body'_def)
    show ?thesis
    proof (cases "chunk = []")
      case True
      then have "body = []"
        by (simp add: chunk_def)
      moreover from True br Inr p' "1.prems" have "r = Inr (hasher, spool) \<and> w' = w1"
        by (subst (asm) read_chunks.simps) auto
      ultimately show ?thesis
        using fr by (auto intro: exI[of _ "Suc 0"])
    next
      case False
      have rec: "read_chunks body' (hasher @ chunk) (spool @ chunk) w1 = (r, w')"
        using "1.prems" br Inr p' False by (subst (asm) read_chunks.simps) simp
      note ih = "1.IH"[OF br[symmetric] Inr p'[symmetric] False rec]
      from ih obtain n where n: "events w' = events w1 @ replicate n S3Read"
        by blast
      have ev: "\<exists>n. events w' = events w @ replicate n S3Read"
        using n fr by (intro exI[of _ "Suc n"]) simp
      have eq: "(hasher @ chunk) @ body' = hasher @ body" "(spool @ chunk) @ body' = spool @ body"
        using app by simp_all
      have st: "s3_objects w' = s3_objects w \<and> gcs_blobs w' = gcs_blobs w \<and>
          gcs_bucket_name w' = gcs_bucket_name w \<and> md5_hexdigest w' = md5_hexdigest w"
        using ih fr by metis
      have res: "\<forall>p. r = Inr p \<longrightarrow> p = (hasher @ body, spool @ body)"
        using ih unfolding eq by blast
      have nv: "\<forall>m. r \<noteq> Inl (ValueError m)"
        using ih by blast
      have nr: "\<forall>e. r \<noteq> Inl (RetryError e)"
        using ih by blast
      have ff: "fault_free w \<longrightarrow> fault_free w' \<and> r = Inr (hasher @ body, spool @ body)"
        using ih fr unfolding eq by blast
      from st ev res nv nr ff show ?thesis
        by blast
    qed
  qed
qed

lemma quiet_refl: "quiet w w"
  by (simp add: quiet_def)

lemma quiet_trans: "quiet w u \<Longrightarrow> quiet u v \<Longrightarrow> quiet w v"
  by (auto simp: quiet_def)

lemma check_source_result:
  "check_source b k w = (r, w') \<Longrightarrow>
     s3_objects w' = s3_objects w \<and> gcs_blobs w' = gcs_blobs w \<and>
     gcs_bucket_name w' = gcs_bucket_name w \<and> md5_hexdigest w' = md5_hexdigest w \<and>
     quiet w w' \<and>
     (\<forall>e. r = Inr e \<longrightarrow> (\<exists>obj. s3_objects w (b, k) = Some obj \<and> e = strip_quotes (ETag obj))) \<and>
     (\<forall>m. r = Inl (ValueError m) \<longrightarrow> m = ''S3 object not found'')"
  by (auto simp: check_source_def client_defs Let_def quiet_def
      split: prod.splits sum.splits option.splits if_splits fault.splits
      elim!: s3_raise.elims except_ClientError.elims)

lemma check_destination_result:
  "check_destination k etag w = (r, w') \<Longrightarrow>
     s3_objects w' = s3_objects w \<and> gcs_blobs w' = gcs_blobs w \<and>
     gcs_bucket_name w' = gcs_bucket_name w \<and> md5_hexdigest w' = md5_hexdigest w \<and>
     quiet w w' \<and>
     (r = Inr True \<longrightarrow> (\<exists>blob h. gcs_blobs w k = Some blob \<and> md5_hash blob = Some h \<and>
         (h = etag \<or> multipart etag))) \<and>
     (\<forall>m. r \<noteq> Inl (ValueError m))"
  by (auto simp: check_destination_def client_defs Let_def quiet_def
      split: prod.splits sum.splits option.splits if_splits bool.splits
      elim!: gcs_raise.elims)

lemma download_result:
  "download b k w = (r, w') \<Longrightarrow>
     s3_objects w' = s3_objects w \<and> gcs_blobs w' = gcs_blobs w \<and>
     gcs_bucket_name w' = gcs_bucket_name w \<and> md5_hexdigest w' = md5_hexdigest w \<and>
     quiet w w' \<and>
     (\<forall>ct h sp. r = Inr (ct, h, sp) \<longrightarrow> (\<exists>obj. s3_objects w (b, k) = Some obj \<and>
         h = Body obj \<and> sp = Body obj \<and>
         ct = (case ContentType obj of None \<Rightarrow> ''application/octet-stream'' | Some t \<Rightarrow> t))) \<and>
     (\<forall>m. r \<noteq> Inl (ValueError m))"
proof -
  assume run: "download b k w = (r, w')"
  obtain x w1 where g: "get_object b k w = (x, w1)" by (cases "get_object b k w")
  have g1: "s3_objects w1 = s3_objects w \<and> gcs_blobs w1 = gcs_blobs w \<and>
     gcs_bucket_name w1 = gcs_bucket_name w \<and> md5_hexdigest w1 = md5_hexdigest w \<and>
     quiet w w1 \<and>
     (\<forall>m. x \<noteq> Inl (ValueError m)) \<and>
     (\<forall>body ct. x = Inr (body, ct) \<longrightarrow>
        (\<exists>obj. s3_objects w (b, k) = Some obj \<and> body = Body obj \<and> ct = ContentType obj))"
    using g by (auto simp: client_defs quiet_def split: option.splits if_splits
        elim!: s3_raise.elims)
  show ?thesis
  proof (cases x)
    case (Inl e)
    with run g g1 show ?thesis by (auto simp: download_def quiet_def)
  next
    case (Inr p)
    obtain body ct where p: "p = (body, ct)" by (cases p)
    obtain y w2 where rc: "read_chunks body [] [] w1 = (y, w2)"
      by (cases "read_chunks body [] [] w1")
    note rr = read_chunks_result[OF rc]
    from run g Inr p rc g1 rr show ?thesis
      by (auto simp: download_def quiet_def Let_def list_all_iff split: sum.splits)
  qed
qed

lemma upload_result:
  "upload k sp ct w = (r, w') \<Longrightarrow>
     s3_objects w' = s3_objects w \<and>
     gcs_bucket_name w' = gcs_bucket_name w \<and> md5_hexdigest w' = md5_hexdigest w \<and>
     quiet w w' \<and>
     (r = Inr () \<longrightarrow> gcs_blobs w' = (gcs_blobs w)(k \<mapsto> \<lparr>blob_data = sp, blob_content_type = ct,
                     md5_hash = Some (md5_hexdigest w sp)\<rparr>)) \<and>
     (\<forall>e. r = Inl e \<longrightarrow> gcs_blobs w' = gcs_blobs w \<and> (\<exists>x. e = ValueError (''Upload error: '' @ x)) \<and>
         events w' = events w @ [GcsUpload k, LogUploadFailed])"
  by (auto simp: upload_def client_defs Let_def quiet_def
      split: prod.splits sum.splits option.splits if_splits bool.splits)

lemma checksum_validation_result:
  "checksum_validation k etag h w = (r, w') \<Longrightarrow>
     s3_objects w' = s3_objects w \<and>
     gcs_bucket_name w' = gcs_bucket_name w \<and> md5_hexdigest w' = md5_hexdigest w \<and>
     (\<forall>m. r = Inr m \<longrightarrow> gcs_blobs w' = gcs_blobs w \<and> quiet w w' \<and>
         m = ''Successfully replicated '' @ k @ '' to GCS '' @ gcs_bucket_name w \<and>
         (multipart etag \<or> md5_hexdigest w h = etag)) \<and>
     (\<forall>m. r = Inl (ValueError m) \<longrightarrow> m = ''Checksum mismatch after upload'' \<and>
         gcs_blobs w' k = None \<and> \<not> multipart etag \<and> md5_hexdigest w h \<noteq> etag \<and>
         events w' = events w @ [LogChecksumMismatch, GcsDelete k]) \<and>
     (multipart etag \<longrightarrow> quiet w w' \<and> (\<exists>m. r = Inr m))"
  by (auto simp: checksum_validation_def client_defs Let_def quiet_def
      split: prod.splits sum.splits option.splits if_splits bool.splits
      elim!: gcs_raise.elims)

lemmas phase_results = check_source_result check_destination_result download_result
  upload_result checksum_validation_result

lemma body_env:
  "replicate_file_body b k w = (r, w') \<Longrightarrow>
     s3_objects w' = s3_objects w \<and> gcs_bucket_name w' = gcs_bucket_name w \<and>
     md5_hexdigest w' = md5_hexdigest w"
  by (auto simp: replicate_file_body_def emit_def
      split: prod.splits sum.splits bool.splits dest!: phase_results)

lemma body_replicated:
  "replicate_file_body b k w = (Inr m, w') \<Longrightarrow> m \<noteq> ''File already replicated (idempotent skip)'' \<Longrightarrow>
     \<exists>obj. s3_objects w (b, k) = Some obj \<and>
       gcs_blobs w' k = Some \<lparr>blob_data = Body obj,
          blob_content_type = (case ContentType obj of None \<Rightarrow> ''application/octet-stream'' | Some t \<Rightarrow> t),
          md5_hash = Some (md5_hexdigest w (Body obj))\<rparr> \<and>
       (multipart (strip_quotes (ETag obj)) \<or> md5_hexdigest w (Body obj) = strip_quotes (ETag obj)) \<and>
       m = ''Successfully replicated '' @ k @ '' to GCS '' @ gcs_bucket_name w"
  by (auto simp: replicate_file_body_def emit_def
      split: prod.splits sum.splits bool.splits dest!: phase_results)

lemma body_returned:
  "replicate_file_body b k w = (Inr m, w') \<Longrightarrow>
     \<exists>obj blob h. s3_objects w (b, k) = Some obj \<and> gcs_blobs w' k = Some blob \<and>
       md5_hash blob = Some h \<and> (h = strip_quotes (ETag obj) \<or> multipart (strip_quotes (ETag obj)))"
  by (auto simp: replicate_file_body_def emit_def
      split: prod.splits sum.splits bool.splits dest!: phase_results)

lemma body_mismatch:
  "replicate_file_body b k w = (Inl (ValueError ''Checksum mismatch after upload''), w') \<Longrightarrow>
     gcs_blobs w' k = None \<and>
     (\<exists>pre. events w' = pre @ [LogChecksumMismatch, GcsDelete k]) \<and>
     (\<exists>obj. s3_objects w (b, k) = Some obj \<and> \<not> multipart (strip_quotes (ETag obj)) \<and>
        md5_hexdigest w (Body obj) \<noteq> strip_quotes (ETag obj))"
  by (auto simp: replicate_file_body_def emit_def
      split: prod.splits sum.splits bool.splits dest!: phase_results)

lemma body_multipart:
  "replicate_file_body b k w = (r, w') \<Longrightarrow> s3_objects w (b, k) = Some obj \<Longrightarrow>
     multipart (strip_quotes (ETag obj)) \<Longrightarrow>
     r \<noteq> Inl (ValueError ''Checksum mismatch after upload'') \<and> quiet w w'"
  by (auto simp: replicate_file_body_def emit_def quiet_def
      split: prod.splits sum.splits bool.splits dest!: phase_results)

lemma body_upload_failed:
  "replicate_file_body b k w = (Inl (ValueError (''Upload error: '' @ x)), w') \<Longrightarrow>
     quiet w w' \<and> gcs_blobs w' = gcs_blobs w \<and>
     (\<exists>pre. events w' = pre @ [GcsUpload k, LogUploadFailed])"
  by (auto simp: replicate_file_body_def emit_def quiet_def
      split: prod.splits sum.splits bool.splits dest!: phase_results)

text \<open>Without faults the result of each phase is determined by the two stores.\<close>

lemma check_source_fault_free:
  "check_source b k w = (r, w') \<Longrightarrow> fault_free w \<Longrightarrow> k \<noteq> [] \<Longrightarrow>
     fault_free w' \<and>
     r = (case s3_objects w (b, k) of
            None \<Rightarrow> Inl (ValueError ''S3 object not found'')
          | Some obj \<Rightarrow> Inr (strip_quotes (ETag obj))) \<and>
     events w' = events w @ S3Head b k #
       (case r of Inr e \<Rightarrow> if multipart e then [LogMultipartETag] else [] | Inl x \<Rightarrow> [])"
  by (auto simp: check_source_def client_defs Let_def fault_free_simps
      split: option.splits)

lemma check_destination_fault_free:
  "check_destination k etag w = (r, w') \<Longrightarrow> fault_free w \<Longrightarrow>
     fault_free w' \<and>
     r = (case gcs_blobs w k of
            None \<Rightarrow> Inr False
          | Some blob \<Rightarrow>
              (case md5_hash blob of
                 None \<Rightarrow> Inl (TypeError ''b64decode'')
               | Some h \<Rightarrow> Inr (h = etag \<or> multipart etag))) \<and>
     events w' = events w @
       (case gcs_blobs w k of
          None \<Rightarrow> [GcsExists k]
        | Some blob \<Rightarrow> GcsExists k # GcsReload k #
            (if r = Inr True then [LogIdempotentSkip] else []))"
  by (auto simp: check_destination_def client_defs Let_def fault_free_simps
      split: option.splits bool.splits if_splits)

lemma download_fault_free:
  assumes run: "download b k w = (r, w')" and ff: "fault_free w"
    and obj: "s3_objects w (b, k) = Some obj"
  shows "fault_free w' \<and>
     r = Inr (case ContentType obj of None \<Rightarrow> ''application/octet-stream'' | Some t \<Rightarrow> t,
              Body obj, Body obj) \<and>
     (\<exists>n. events w' = events w @ S3Get b k # replicate n S3Read)"
proof -
  define w1 where "w1 = w\<lparr>events := events w @ [S3Get b k], faults := tl (faults w)\<rparr>"
  have g: "get_object b k w = (Inr (Body obj, ContentType obj), w1)"
    using ff obj s3_objects_key[OF obj] by (simp add: client_defs fault_free_pending w1_def)
  have ff1: "fault_free w1"
    using ff by (simp add: w1_def fault_free_simps)
  obtain y w2 where rc: "read_chunks (Body obj) [] [] w1 = (y, w2)"
    by (cases "read_chunks (Body obj) [] [] w1")
  from read_chunks_result[OF rc] ff1 obtain n where
    y: "y = Inr (Body obj, Body obj)" and ff2: "fault_free w2"
    and ev: "events w2 = events w1 @ replicate n S3Read"
    by auto
  from run g rc y have "r = Inr (case ContentType obj of None \<Rightarrow> ''application/octet-stream'' | Some t \<Rightarrow> t,
              Body obj, Body obj)" "w' = w2"
    by (simp_all add: download_def)
  with ff2 ev show ?thesis
    by (simp add: w1_def)
qed

lemma upload_fault_free:
  "upload k sp ct w = (r, w') \<Longrightarrow> fault_free w \<Longrightarrow>
     fault_free w' \<and> r = Inr () \<and> events w' = events w @ [GcsUpload k, LogUploaded]"
  by (auto simp: upload_def client_defs fault_free_simps split: option.splits)

lemma checksum_validation_fault_free:
  "checksum_validation k etag h w = (r, w') \<Longrightarrow> fault_free w \<Longrightarrow> gcs_blobs w k = Some blob \<Longrightarrow>
     fault_free w' \<and>
     r = (if md5_hexdigest w h \<noteq> etag \<and> \<not> multipart etag
          then Inl (ValueError ''Checksum mismatch after upload'')
          else Inr (''Successfully replicated '' @ k @ '' to GCS '' @ gcs_bucket_name w)) \<and>
     events w' = events w @
       (if md5_hexdigest w h \<noteq> etag \<and> \<not> multipart etag
        then [LogChecksumMismatch, GcsDelete k] else [LogComplete])"
  by (auto simp: checksum_validation_def client_defs Let_def fault_free_simps
      split: option.splits if_splits)

text \<open>
  The decorator: what it returns or raises is what the last attempt returned or raised
  (wrapped in \<open>RetryError\<close> when it gave up), and anything that every attempt and
  every wait preserves holds at the start of that last attempt.
\<close>

lemma retrying_last_attempt:
  assumes "retrying mx n fn w = (r, w')" and "I w"
    and step: "\<And>u x v. I u \<Longrightarrow> fn u = (x, v) \<Longrightarrow> I v"
    and emit: "\<And>u n. I u \<Longrightarrow> I (emit (Backoff n) u)"
  shows "\<exists>w0. I w0 \<and> (fn w0 = (r, w') \<or> (\<exists>e. r = Inl (RetryError e) \<and> fn w0 = (Inl e, w')))"
  using assms
proof (induction mx n fn w rule: retrying.induct)
  case (1 mx n fn w)
  note step = "1.prems"(3) and emit = "1.prems"(4)
  obtain x w1 where f: "fn w = (x, w1)" by (cases "fn w")
  have I1: "I w1" using step[OF "1.prems"(2) f] .
  show ?case
  proof (cases x)
    case (Inr v)
    with f "1.prems"(1) have "r = Inr v \<and> w' = w1"
      by (subst (asm) retrying.simps) auto
    with f Inr "1.prems"(2) show ?thesis by blast
  next
    case (Inl e)
    show ?thesis
    proof (cases "retry_if_exception_type e")
      case False
      with f Inl "1.prems"(1) have "r = Inl e \<and> w' = w1"
        by (subst (asm) retrying.simps) auto
      with f Inl "1.prems"(2) show ?thesis by blast
    next
      case True
      show ?thesis
      proof (cases "stop_after_attempt mx n")
        case stop: True
        with True f Inl "1.prems"(1) have "r = Inl (RetryError e) \<and> w' = w1"
          by (subst (asm) retrying.simps) auto
        with f Inl "1.prems"(2) show ?thesis by blast
      next
        case go: False
        with True f Inl "1.prems"(1)
        have rec: "retrying mx (n + 1) fn (emit (Backoff n) w1) = (r, w')"
          by (subst (asm) retrying.simps) auto
        have "\<not> \<not> retry_if_exception_type e" using True by simp
        from "1.IH"[OF f[symmetric] Inl this go rec emit[OF I1] step emit] show ?thesis .
      qed
    qed
  qed
qed

lemma in_dropWhile: "x \<in> set xs \<Longrightarrow> \<not> P x \<Longrightarrow> x \<in> set (dropWhile P xs)"
  by (induction xs) auto

lemma multipart_strip_quotes: "multipart (strip_quotes s) = multipart s"
proof
  assume "multipart (strip_quotes s)"
  then show "multipart s"
    by (auto simp: multipart_def strip_quotes_def dest!: set_dropWhileD)
next
  assume "multipart s"
  then show "multipart (strip_quotes s)"
    by (simp add: multipart_def strip_quotes_def in_dropWhile)
qed

lemma retrying_returns:
  "fn w = (Inr v, w1) \<Longrightarrow> retrying mx n fn w = (Inr v, w1)"
  by (subst retrying.simps) simp

lemma retrying_raises:
  "fn w = (Inl e, w1) \<Longrightarrow> \<not> retry_if_exception_type e \<Longrightarrow> retrying mx n fn w = (Inl e, w1)"
  by (subst retrying.simps) simp

lemma replicate_file_last_attempt:
  assumes "replicate_file b k w = (r, w')"
  shows "\<exists>w0. (s3_objects w0 = s3_objects w \<and> gcs_bucket_name w0 = gcs_bucket_name w \<and>
           md5_hexdigest w0 = md5_hexdigest w) \<and>
         (replicate_file_body b k w0 = (r, w') \<or>
          (\<exists>e. r = Inl (RetryError e) \<and> replicate_file_body b k w0 = (Inl e, w')))"
  by (rule retrying_last_attempt[OF assms[unfolded replicate_file_def]])
     (auto simp: emit_def dest: body_env)

lemma body_skip_fault_free:
  assumes ff: "fault_free w" and obj: "s3_objects w (b, k) = Some obj"
    and blob: "gcs_blobs w k = Some blob" "md5_hash blob = Some h"
    and same: "h = strip_quotes (ETag obj) \<or> multipart (ETag obj)"
  shows "\<exists>w'. replicate_file_body b k w = (Inr skipped, w') \<and> fault_free w' \<and>
           gcs_blobs w' = gcs_blobs w \<and>
           events w' = events w @ LogStarting # S3Head b k #
             (if multipart (ETag obj) then [LogMultipartETag] else []) @
             [GcsExists k, GcsReload k, LogIdempotentSkip]"
proof -
  define etag where "etag = strip_quotes (ETag obj)"
  have mp: "multipart etag = multipart (ETag obj)"
    by (simp add: etag_def multipart_strip_quotes)
  obtain r1 w1 where p1: "check_source b k (emit LogStarting w) = (r1, w1)"
    by (cases "check_source b k (emit LogStarting w)")
  have ff0: "fault_free (emit LogStarting w)"
    using ff by (simp add: emit_def)
  from check_source_fault_free[OF p1 ff0 s3_objects_key[OF obj]] obj
  have r1: "r1 = Inr etag" and ff1: "fault_free w1"
    and ev1: "events w1 = events w @ LogStarting # S3Head b k #
        (if multipart etag then [LogMultipartETag] else [])"
    by (simp_all add: emit_def etag_def)
  from check_source_result[OF p1] have g1: "gcs_blobs w1 = gcs_blobs w"
    by (simp add: emit_def)
  obtain r2 w2 where p2: "check_destination k etag w1 = (r2, w2)"
    by (cases "check_destination k etag w1")
  from check_destination_fault_free[OF p2 ff1] g1 blob same mp
  have r2: "r2 = Inr True" and ff2: "fault_free w2"
    and ev2: "events w2 = events w1 @ [GcsExists k, GcsReload k, LogIdempotentSkip]"
    by (auto simp: etag_def)
  from check_destination_result[OF p2] g1 have g2: "gcs_blobs w2 = gcs_blobs w"
    by simp
  have "replicate_file_body b k w = (Inr skipped, w2)"
    by (simp add: replicate_file_body_def p1 r1 p2 r2 skipped_def)
  with ff2 g2 ev1 ev2 mp show ?thesis
    by simp
qed

lemma body_transfer_fault_free:
  assumes ff: "fault_free w" and obj: "s3_objects w (b, k) = Some obj"
    and need: "transfer_needed (strip_quotes (ETag obj)) (gcs_blobs w k)"
  shows "\<exists>w' n. replicate_file_body b k w =
             (if md5_hexdigest w (Body obj) \<noteq> strip_quotes (ETag obj) \<and> \<not> multipart (ETag obj)
              then Inl (ValueError ''Checksum mismatch after upload'')
              else Inr (replicated k w), w') \<and>
           fault_free w' \<and>
           gcs_blobs w' =
             (if md5_hexdigest w (Body obj) \<noteq> strip_quotes (ETag obj) \<and> \<not> multipart (ETag obj)
              then (gcs_blobs w)(k := None)
              else (gcs_blobs w)(k \<mapsto> \<lparr>blob_data = Body obj,
                     blob_content_type = content_type_of obj,
                     md5_hash = Some (md5_hexdigest w (Body obj))\<rparr>)) \<and>
           events w' = events w @ LogStarting # S3Head b k #
             (if multipart (ETag obj) then [LogMultipartETag] else []) @
             GcsExists k # (if gcs_blobs w k = None then [] else [GcsReload k]) @
             S3Get b k # replicate n S3Read @ [GcsUpload k, LogUploaded] @
             (if md5_hexdigest w (Body obj) \<noteq> strip_quotes (ETag obj) \<and> \<not> multipart (ETag obj)
              then [LogChecksumMismatch, GcsDelete k] else [LogComplete])"
proof -
  define etag where "etag = strip_quotes (ETag obj)"
  have mp: "multipart etag = multipart (ETag obj)"
    by (simp add: etag_def multipart_strip_quotes)
  obtain r1 w1 where p1: "check_source b k (emit LogStarting w) = (r1, w1)"
    by (cases "check_source b k (emit LogStarting w)")
  have ff0: "fault_free (emit LogStarting w)"
    using ff by (simp add: emit_def)
  from check_source_fault_free[OF p1 ff0 s3_objects_key[OF obj]] obj
  have r1: "r1 = Inr etag" and ff1: "fault_free w1"
    and ev1: "events w1 = events w @ LogStarting # S3Head b k #
        (if multipart etag then [LogMultipartETag] else [])"
    by (simp_all add: emit_def etag_def)
  from check_source_result[OF p1]
  have e1: "s3_objects w1 = s3_objects w" "gcs_blobs w1 = gcs_blobs w"
    "gcs_bucket_name w1 = gcs_bucket_name w" "md5_hexdigest w1 = md5_hexdigest w"
    by (simp_all add: emit_def)
  obtain r2 w2 where p2: "check_destination k etag w1 = (r2, w2)"
    by (cases "check_destination k etag w1")
  from check_destination_fault_free[OF p2 ff1] e1 need
  have r2: "r2 = Inr False" and ff2: "fault_free w2"
    and ev2: "events w2 = events w1 @
        GcsExists k # (if gcs_blobs w k = None then [] else [GcsReload k])"
    by (auto simp: etag_def transfer_needed_def split: option.splits)
  from check_destination_result[OF p2] e1
  have e2: "s3_objects w2 = s3_objects w" "gcs_blobs w2 = gcs_blobs w"
    "gcs_bucket_name w2 = gcs_bucket_name w" "md5_hexdigest w2 = md5_hexdigest w"
    by simp_all
  obtain r3 w3 where p3: "download b k w2 = (r3, w3)"
    by (cases "download b k w2")
  from obj e2 have obj2: "s3_objects w2 (b, k) = Some obj"
    by simp
  from download_fault_free[OF p3 ff2 obj2] obtain n where
    r3: "r3 = Inr (content_type_of obj, Body obj, Body obj)" and ff3: "fault_free w3"
    and ev3: "events w3 = events w2 @ S3Get b k # replicate n S3Read"
    by (auto simp: content_type_of_def)
  from download_result[OF p3] e2
  have e3: "s3_objects w3 = s3_objects w" "gcs_blobs w3 = gcs_blobs w"
    "gcs_bucket_name w3 = gcs_bucket_name w" "md5_hexdigest w3 = md5_hexdigest w"
    by simp_all
  obtain r4 w4 where p4: "upload k (Body obj) (content_type_of obj) w3 = (r4, w4)"
    by (cases "upload k (Body obj) (content_type_of obj) w3")
  from upload_fault_free[OF p4 ff3]
  have r4: "r4 = Inr ()" and ff4: "fault_free w4"
    and ev4: "events w4 = events w3 @ [GcsUpload k, LogUploaded]"
    by simp_all
  from upload_result[OF p4] r4 e3
  have e4: "gcs_bucket_name w4 = gcs_bucket_name w" "md5_hexdigest w4 = md5_hexdigest w"
    and g4: "gcs_blobs w4 = (gcs_blobs w)(k \<mapsto> \<lparr>blob_data = Body obj,
        blob_content_type = content_type_of obj,
        md5_hash = Some (md5_hexdigest w (Body obj))\<rparr>)"
    by simp_all
  obtain r5 w5 where p5: "checksum_validation k etag (Body obj) w4 = (r5, w5)"
    by (cases "checksum_validation k etag (Body obj) w4")
  have "gcs_blobs w4 k = Some \<lparr>blob_data = Body obj,
        blob_content_type = content_type_of obj,
        md5_hash = Some (md5_hexdigest w (Body obj))\<rparr>"
    by (simp add: g4)
  from checksum_validation_fault_free[OF p5 ff4 this] e4
  have r5: "r5 = (if md5_hexdigest w (Body obj) \<noteq> etag \<and> \<not> multipart etag
          then Inl (ValueError ''Checksum mismatch after upload'')
          else Inr (replicated k w))" and ff5: "fault_free w5"
    and ev5: "events w5 = events w4 @
       (if md5_hexdigest w (Body obj) \<noteq> etag \<and> \<not> multipart etag
        then [LogChecksumMismatch, GcsDelete k] else [LogComplete])"
    by (simp_all add: replicated_def)
  have g5: "gcs_blobs w5 =
       (if md5_hexdigest w (Body obj) \<noteq> etag \<and> \<not> multipart etag
        then (gcs_blobs w)(k := None) else gcs_blobs w4)"
    using p5 ff4 e4 g4
    by (auto simp: checksum_validation_def Let_def blob_delete_def next_fault_eq emit_def
        fault_free_simps split: if_splits)
  have "replicate_file_body b k w = (r5, w5)"
    by (simp add: replicate_file_body_def p1 r1 p2 r2 p3 r3 p4 r4 p5)
  with r5 ff5 g5 g4 ev1 ev2 ev3 ev4 ev5 mp show ?thesis
    unfolding etag_def[symmetric] by (intro exI[of _ w5] exI[of _ n]) simp
qed

text \<open>
  The budget of the decorator: every call makes at least one and at most three attempts,
  and exactly three when it gives up with \<open>RetryError\<close>.
\<close>

lemma attempts_emit [simp]: "attempts (emit ev w) = attempts w + (if ev = LogStarting then 1 else 0)"
  by (simp add: attempts_def emit_def)

lemma attempts_append:
  "events w' = events w @ new \<Longrightarrow> attempts w' = attempts w + count_list new LogStarting"
  by (simp add: attempts_def)

lemma check_source_attempts:
  "check_source b k w = (r, w') \<Longrightarrow> attempts w' = attempts w \<and> (\<forall>e. r \<noteq> Inl (RetryError e))"
  by (auto simp: check_source_def client_defs Let_def attempts_def split: option.splits if_splits
      elim!: s3_raise.elims except_ClientError.elims)

lemma check_destination_attempts:
  "check_destination k etag w = (r, w') \<Longrightarrow>
     attempts w' = attempts w \<and> (\<forall>e. r \<noteq> Inl (RetryError e))"
  by (auto simp: check_destination_def client_defs Let_def attempts_def
      split: option.splits if_splits bool.splits elim!: gcs_raise.elims)

lemma download_attempts:
  assumes "download b k w = (r, w')"
  shows "attempts w' = attempts w \<and> (\<forall>e. r \<noteq> Inl (RetryError e))"
proof -
  obtain x w1 where g: "get_object b k w = (x, w1)"
    by (cases "get_object b k w")
  then have a1: "attempts w1 = attempts w \<and> (\<forall>e. x \<noteq> Inl (RetryError e))"
    by (auto simp: client_defs attempts_def split: option.splits if_splits
        elim!: s3_raise.elims)
  show ?thesis
  proof (cases x)
    case (Inl e)
    with assms g a1 show ?thesis
      by (auto simp: download_def)
  next
    case (Inr p)
    obtain body ct where p: "p = (body, ct)" by (cases p)
    obtain y w2 where rc: "read_chunks body [] [] w1 = (y, w2)"
      by (cases "read_chunks body [] [] w1")
    from read_chunks_result[OF rc] obtain n where "events w2 = events w1 @ replicate n S3Read"
      and "\<forall>e. y \<noteq> Inl (RetryError e)"
      by blast
    then have "attempts w2 = attempts w1" "\<forall>e. y \<noteq> Inl (RetryError e)"
      by (simp_all add: attempts_def)
    with assms g Inr p rc a1 show ?thesis
      by (auto simp: download_def Let_def split: sum.splits)
  qed
qed

lemma upload_attempts:
  "upload k sp ct w = (r, w') \<Longrightarrow> attempts w' = attempts w \<and> (\<forall>e. r \<noteq> Inl (RetryError e))"
  by (auto simp: upload_def client_defs attempts_def split: option.splits)

lemma checksum_validation_attempts:
  "checksum_validation k etag h w = (r, w') \<Longrightarrow>
     attempts w' = attempts w \<and> (\<forall>e. r \<noteq> Inl (RetryError e))"
  by (auto simp: checksum_validation_def client_defs Let_def attempts_def
      split: option.splits if_splits elim!: gcs_raise.elims)

lemma body_attempts:
  "replicate_file_body b k w = (r, w') \<Longrightarrow>
     attempts w' = attempts w + 1 \<and> (\<forall>e. r \<noteq> Inl (RetryError e))"
  by (auto simp: replicate_file_body_def
      split: prod.splits sum.splits bool.splits
      dest!: check_source_attempts check_destination_attempts download_attempts upload_attempts
        checksum_validation_attempts)

lemma retrying_attempts:
  assumes "retrying mx n fn w = (r, w')"
    and step: "\<And>u x v. fn u = (x, v) \<Longrightarrow>
        attempts v = attempts u + 1 \<and> (\<forall>e. x \<noteq> Inl (RetryError e))"
    and "n \<le> mx"
  shows "attempts w < attempts w' \<and> attempts w' \<le> attempts w + (mx - n + 1) \<and>
         (\<forall>e. r = Inl (RetryError e) \<longrightarrow> attempts w' = attempts w + (mx - n + 1))"
  using assms
proof (induction mx n fn w rule: retrying.induct)
  case (1 mx n fn w)
  note step = "1.prems"(2)
  obtain x w1 where f: "fn w = (x, w1)" by (cases "fn w")
  from step[OF f] have a1: "attempts w1 = attempts w + 1" and nr: "\<forall>e. x \<noteq> Inl (RetryError e)"
    by simp_all
  show ?case
  proof (cases "\<exists>e. x = Inl e \<and> retry_if_exception_type e")
    case False
    with f "1.prems"(1) have "w' = w1 \<and> r = x"
      by (subst (asm) retrying.simps) (auto split: sum.splits if_splits)
    then show ?thesis using a1 nr by auto
  next
    case True
    then obtain e where x: "x = Inl e" and re: "retry_if_exception_type e"
      by blast
    show ?thesis
    proof (cases "stop_after_attempt mx n")
      case stop: True
      with f x re "1.prems"(1) have "w' = w1 \<and> r = Inl (RetryError e)"
        by (subst (asm) retrying.simps) auto
      moreover from stop "1.prems"(3) have "mx = n"
        by (simp add: stop_after_attempt_def)
      ultimately show ?thesis using a1 by simp
    next
      case go: False
      with f x re "1.prems"(1)
      have rec: "retrying mx (n + 1) fn (emit (Backoff n) w1) = (r, w')"
        by (subst (asm) retrying.simps) auto
      have nn: "\<not> \<not> retry_if_exception_type e" using re by simp
      from go have le: "n + 1 \<le> mx"
        by (simp add: stop_after_attempt_def)
      have "attempts (emit (Backoff n) w1) < attempts w' \<and>
          attempts w' \<le> attempts (emit (Backoff n) w1) + (mx - (n + 1) + 1) \<and>
          (\<forall>e. r = Inl (RetryError e) \<longrightarrow>
             attempts w' = attempts (emit (Backoff n) w1) + (mx - (n + 1) + 1))"
      proof (rule "1.IH"[OF f[symmetric] x nn go rec _ le])
        fix u y v assume "fn u = (y, v)"
        then show "attempts v = attempts u + 1 \<and> (\<forall>e. y \<noteq> Inl (RetryError e))"
          by (rule step)
      qed
      with a1 le show ?thesis
        by auto
    qed
  qed
qed

lemma retry_budget:
  assumes "replicate_file b k w = (r, w')"
  shows "attempts w < attempts w' \<and> attempts w' \<le> attempts w + 3 \<and>
         (\<forall>e. r = Inl (RetryError e) \<longrightarrow> attempts w' = attempts w + 3)"
proof -
  have "attempts w < attempts w' \<and> attempts w' \<le> attempts w + (3 - 1 + 1) \<and>
         (\<forall>e. r = Inl (RetryError e) \<longrightarrow> attempts w' = attempts w + (3 - 1 + 1))"
  proof (rule retrying_attempts[OF assms[unfolded replicate_file_def]])
    fix u x v assume "replicate_file_body b k u = (x, v)"
    then show "attempts v = attempts u + 1 \<and> (\<forall>e. x \<noteq> Inl (RetryError e))"
      by (rule body_attempts)
  qed simp
  then show ?thesis by simp
qed

section \<open>Evaluation on the example worlds\<close>

lemmas ex_defs = example_world_def s3_objects_def logo_def quoted_def example_digest_def
lemmas run_defs = replicate_file_def replicate_file_body_def check_source_def check_destination_def
  download_def upload_def checksum_validation_def head_object_def get_object_def body_read_def
  blob_exists_def blob_reload_def upload_from_file_def blob_delete_def next_fault_def emit_def
  strip_quotes_def multipart_def stop_after_attempt_def Let_def

section \<open>The claims\<close>

text \<open>
  C1. Whenever \<^verbatim>\<open>replicate_file\<close> returns its success text after a transfer,
  whatever faults were injected and however many attempts it took, the source object
  exists and the destination blob holds exactly the bytes of its body: the spool that was
  uploaded is the concatenation of the chunks in the order read (\<open>read_chunks_result\<close>),
  and the hasher was fed the same bytes, so the digest that passed the validation (or was
  not compared, for a multi-part ETag) is the digest of those bytes.
\<close>

theorem replicated_bytes_equal_source:
  assumes "replicate_file b k w = (Inr (replicated k w), w')"
  shows "\<exists>obj. s3_objects w (b, k) = Some obj \<and>
           gcs_blobs w' k = Some \<lparr>blob_data = Body obj, blob_content_type = content_type_of obj,
              md5_hash = Some (md5_hexdigest w (Body obj))\<rparr> \<and>
           (multipart (ETag obj) \<or> md5_hexdigest w (Body obj) = strip_quotes (ETag obj))"
proof -
  from replicate_file_last_attempt[OF assms] obtain w0 where
    env: "s3_objects w0 = s3_objects w" "gcs_bucket_name w0 = gcs_bucket_name w"
      "md5_hexdigest w0 = md5_hexdigest w"
    and run: "replicate_file_body b k w0 = (Inr (replicated k w), w')"
    by auto
  have "replicated k w \<noteq> ''File already replicated (idempotent skip)''"
    by (simp add: replicated_def)
  from body_replicated[OF run this] env show ?thesis
    by (auto simp: content_type_of_def multipart_strip_quotes)
qed

theorem replicated_bytes_equal_source_witness:
  "fst (replicate_file ''src'' ''img/logo.png'' (example_world (Some (logo ''f0f'')) None []))
     = Inr (replicated ''img/logo.png'' (example_world (Some (logo ''f0f'')) None [])) \<and>
   (\<exists>blob. gcs_blobs (snd (replicate_file ''src'' ''img/logo.png''
        (example_world (Some (logo ''f0f'')) None []))) ''img/logo.png'' = Some blob \<and>
      blob_data blob = [1, 0, 2])"
proof -
  define w where "w = example_world (Some (logo ''f0f'')) None []"
  have run: "fst (replicate_file ''src'' ''img/logo.png'' w) = Inr (replicated ''img/logo.png'' w)"
    by (simp add: w_def replicated_def ex_defs run_defs)
  then have "replicate_file ''src'' ''img/logo.png'' w
      = (Inr (replicated ''img/logo.png'' w), snd (replicate_file ''src'' ''img/logo.png'' w))"
    by (simp add: prod_eq_iff)
  from replicated_bytes_equal_source[OF this] run show ?thesis
    unfolding w_def[symmetric] by (auto simp: w_def ex_defs)
qed

text \<open>
  C2. Idempotence. When a call of \<^verbatim>\<open>replicate_file\<close> has returned (either
  text) and nothing touches the stores before the next call, a second call for the same
  object that meets no fault returns the idempotent skip: it looks up the source, finds
  the blob, reloads it and stops. It issues neither \<^verbatim>\<open>get_object\<close> nor an
  upload, and the destination is as the first call left it.
\<close>

theorem second_call_skipped:
  assumes first: "replicate_file b k w = (Inr m, w1)" and ff: "fault_free w1"
  shows "\<exists>w2 obj. replicate_file b k w1 = (Inr skipped, w2) \<and> gcs_blobs w2 = gcs_blobs w1 \<and>
           s3_objects w (b, k) = Some obj \<and>
           events w2 = events w1 @ LogStarting # S3Head b k #
             (if multipart (ETag obj) then [LogMultipartETag] else []) @
             [GcsExists k, GcsReload k, LogIdempotentSkip]"
proof -
  from replicate_file_last_attempt[OF first] obtain w0 where
    env: "s3_objects w0 = s3_objects w" and run: "replicate_file_body b k w0 = (Inr m, w1)"
    by auto
  from body_returned[OF run] obtain obj blob h where
    obj: "s3_objects w0 (b, k) = Some obj" and blob: "gcs_blobs w1 k = Some blob"
    "md5_hash blob = Some h" and same: "h = strip_quotes (ETag obj) \<or> multipart (ETag obj)"
    by (auto simp: multipart_strip_quotes)
  from body_env[OF run] obj have obj1: "s3_objects w1 (b, k) = Some obj"
    by simp
  from body_skip_fault_free[OF ff obj1 blob same] obtain w2 where
    "replicate_file_body b k w1 = (Inr skipped, w2)" "gcs_blobs w2 = gcs_blobs w1"
    "events w2 = events w1 @ LogStarting # S3Head b k #
             (if multipart (ETag obj) then [LogMultipartETag] else []) @
             [GcsExists k, GcsReload k, LogIdempotentSkip]"
    by blast
  with obj env show ?thesis
    by (auto simp: replicate_file_def retrying_returns)
qed

theorem second_call_skipped_witness:
  "fault_free (snd (replicate_file ''src'' ''img/logo.png'' (example_world (Some (logo ''f0f'')) None []))) \<and>
   fst (replicate_file ''src'' ''img/logo.png''
     (snd (replicate_file ''src'' ''img/logo.png'' (example_world (Some (logo ''f0f'')) None []))))
     = Inr skipped"
proof -
  define w where "w = example_world (Some (logo ''f0f'')) None []"
  define w1 where "w1 = snd (replicate_file ''src'' ''img/logo.png'' w)"
  have run: "replicate_file ''src'' ''img/logo.png'' w = (Inr (replicated ''img/logo.png'' w), w1)"
    by (simp add: w1_def prod_eq_iff) (simp add: w_def replicated_def ex_defs run_defs)
  have ff: "fault_free w1"
    unfolding w1_def w_def by (simp add: fault_free_def ex_defs run_defs)
  from second_call_skipped[OF run ff] ff show ?thesis
    unfolding w1_def w_def by auto
qed

text \<open>
  C3. The compensating delete. Whatever faults are injected, a call that ends with the
  checksum mismatch has deleted the blob it uploaded: no blob is under the key afterwards
  and the delete is the last thing the call did. And a transfer from a source whose
  single-part ETag differs from the digest of its body does end that way when no client
  call fails.
\<close>

theorem mismatch_deletes_destination:
  assumes run: "replicate_file b k w = (r, w')"
  shows "(r = Inl (ValueError ''Checksum mismatch after upload'') \<longrightarrow>
            gcs_blobs w' k = None \<and>
            (\<exists>pre. events w' = pre @ [LogChecksumMismatch, GcsDelete k])) \<and>
         (fault_free w \<and> s3_objects w (b, k) = Some obj \<and> \<not> multipart (ETag obj) \<and>
          md5_hexdigest w (Body obj) \<noteq> strip_quotes (ETag obj) \<and>
          transfer_needed (strip_quotes (ETag obj)) (gcs_blobs w k) \<longrightarrow>
            r = Inl (ValueError ''Checksum mismatch after upload''))"
proof (intro conjI impI)
  assume r: "r = Inl (ValueError ''Checksum mismatch after upload'')"
  from replicate_file_last_attempt[OF run] r obtain w0 where
    "replicate_file_body b k w0 = (Inl (ValueError ''Checksum mismatch after upload''), w')"
    by auto
  from body_mismatch[OF this]
  show "gcs_blobs w' k = None" "\<exists>pre. events w' = pre @ [LogChecksumMismatch, GcsDelete k]"
    by blast+
next
  assume h: "fault_free w \<and> s3_objects w (b, k) = Some obj \<and> \<not> multipart (ETag obj) \<and>
          md5_hexdigest w (Body obj) \<noteq> strip_quotes (ETag obj) \<and>
          transfer_needed (strip_quotes (ETag obj)) (gcs_blobs w k)"
  then have ff: "fault_free w" and obj: "s3_objects w (b, k) = Some obj"
    and need: "transfer_needed (strip_quotes (ETag obj)) (gcs_blobs w k)"
    by simp_all
  from body_transfer_fault_free[OF ff obj need] h obtain w1 where
    "replicate_file_body b k w = (Inl (ValueError ''Checksum mismatch after upload''), w1)"
    by auto
  then have "replicate_file b k w = (Inl (ValueError ''Checksum mismatch after upload''), w1)"
    by (simp add: replicate_file_def retrying_raises)
  with run show "r = Inl (ValueError ''Checksum mismatch after upload'')"
    by simp
qed

theorem mismatch_deletes_destination_witness:
  "fault_free (example_world (Some (logo ''ffff'')) None []) \<and>
   fst (replicate_file ''src'' ''img/logo.png'' (example_world (Some (logo ''ffff'')) None []))
     = Inl (ValueError ''Checksum mismatch after upload'') \<and>
   gcs_blobs (snd (replicate_file ''src'' ''img/logo.png''
      (example_world (Some (logo ''ffff'')) None []))) ''img/logo.png'' = None"
proof -
  define w where "w = example_world (Some (logo ''ffff'')) None []"
  have ff: "fault_free w"
    by (simp add: w_def fault_free_def ex_defs)
  have hyp: "fault_free w \<and> s3_objects w (''src'', ''img/logo.png'') = Some (logo ''ffff'') \<and>
     \<not> multipart (ETag (logo ''ffff'')) \<and>
     md5_hexdigest w (Body (logo ''ffff'')) \<noteq> strip_quotes (ETag (logo ''ffff'')) \<and>
     transfer_needed (strip_quotes (ETag (logo ''ffff''))) (gcs_blobs w ''img/logo.png'')"
    by (simp add: w_def fault_free_def ex_defs multipart_def strip_quotes_def transfer_needed_def)
  from mismatch_deletes_destination[OF prod.collapse[symmetric], of "''src''" "''img/logo.png''" w "logo ''ffff''"] hyp
  show ?thesis
    unfolding w_def by simp
qed

text \<open>
  C4. A source object with a multi-part ETag never leads to the checksum mismatch,
  whatever its bytes and whatever faults are injected, and no delete is issued during the
  call.
\<close>

theorem multipart_never_mismatch:
  assumes run: "replicate_file b k w = (r, w')"
    and obj: "s3_objects w (b, k) = Some obj" and mp: "multipart (ETag obj)"
  shows "r \<noteq> Inl (ValueError ''Checksum mismatch after upload'') \<and> quiet w w'"
proof -
  define I where "I = (\<lambda>u. s3_objects u = s3_objects w \<and> quiet w u)"
  have "\<exists>w0. I w0 \<and> (replicate_file_body b k w0 = (r, w') \<or>
       (\<exists>e. r = Inl (RetryError e) \<and> replicate_file_body b k w0 = (Inl e, w')))"
  proof (rule retrying_last_attempt[where I = I])
    show "retrying 3 1 (replicate_file_body b k) w = (r, w')"
      using run by (simp add: replicate_file_def)
    show "I w"
      by (simp add: I_def quiet_def)
  next
    fix u x v assume Iu: "I u" and f: "replicate_file_body b k u = (x, v)"
    then have "s3_objects u (b, k) = Some obj"
      using obj by (simp add: I_def)
    from body_multipart[OF f this] mp have "quiet u v"
      by (simp add: multipart_strip_quotes)
    with Iu body_env[OF f] show "I v"
      by (auto simp: I_def intro: quiet_trans)
  next
    fix u n assume "I u"
    then show "I (emit (Backoff n) u)"
      by (auto simp: I_def quiet_def emit_def)
  qed
  then obtain w0 where I0: "I w0"
    and last: "replicate_file_body b k w0 = (r, w') \<or>
       (\<exists>e. r = Inl (RetryError e) \<and> replicate_file_body b k w0 = (Inl e, w'))"
    by blast
  from I0 obj have obj0: "s3_objects w0 (b, k) = Some obj"
    by (simp add: I_def)
  from I0 have q0: "quiet w w0"
    by (simp add: I_def)
  from last show ?thesis
  proof
    assume f: "replicate_file_body b k w0 = (r, w')"
    from body_multipart[OF f obj0] mp q0 show ?thesis
      by (auto simp: multipart_strip_quotes intro: quiet_trans)
  next
    assume "\<exists>e. r = Inl (RetryError e) \<and> replicate_file_body b k w0 = (Inl e, w')"
    then obtain e where r: "r = Inl (RetryError e)"
      and f: "replicate_file_body b k w0 = (Inl e, w')"
      by blast
    from body_multipart[OF f obj0] mp q0 r show ?thesis
      by (auto simp: multipart_strip_quotes intro: quiet_trans)
  qed
qed

theorem multipart_never_mismatch_witness:
  "s3_objects (example_world (Some (logo ''ffff-2'')) None []) (''src'', ''img/logo.png'')
      = Some (logo ''ffff-2'') \<and> multipart (ETag (logo ''ffff-2'')) \<and>
   fst (replicate_file ''src'' ''img/logo.png'' (example_world (Some (logo ''ffff-2'')) None []))
     \<noteq> Inl (ValueError ''Checksum mismatch after upload'') \<and>
   quiet (example_world (Some (logo ''ffff-2'')) None [])
     (snd (replicate_file ''src'' ''img/logo.png'' (example_world (Some (logo ''ffff-2'')) None [])))"
proof -
  define w where "w = example_world (Some (logo ''ffff-2'')) None []"
  have obj: "s3_objects w (''src'', ''img/logo.png'') = Some (logo ''ffff-2'')"
    by (simp add: w_def ex_defs)
  have mp: "multipart (ETag (logo ''ffff-2''))"
    by (simp add: multipart_def ex_defs)
  from multipart_never_mismatch[OF prod.collapse[symmetric] obj mp] obj mp show ?thesis
    unfolding w_def by simp
qed

text \<open>
  C6. When the metadata lookup answers with the error code 404, the call fails with
  \<^verbatim>\<open>ValueError("S3 object not found")\<close> after exactly one attempt: the only
  events are the start of that attempt and the lookup, there is no wait and no second
  attempt, and the destination is untouched.
\<close>

theorem source_not_found_single_attempt:
  assumes nf: "fst (head_object b k w) = Inl (ClientError ''404'' msg)"
  shows "\<exists>w'. replicate_file b k w = (Inl (ValueError ''S3 object not found''), w') \<and>
           events w' = events w @ [LogStarting, S3Head b k] \<and>
           attempts w' = attempts w + 1 \<and> gcs_blobs w' = gcs_blobs w"
proof -
  obtain w1 where h: "head_object b k (emit LogStarting w) = (Inl (ClientError ''404'' msg), w1)"
    and ev: "events w1 = events w @ [LogStarting, S3Head b k]"
    and g: "gcs_blobs w1 = gcs_blobs w"
    using nf by (auto simp: head_object_def next_fault_eq emit_def invalid_key_def
        split: option.splits if_splits)
  then have "replicate_file_body b k w = (Inl (ValueError ''S3 object not found''), w1)"
    by (simp add: replicate_file_body_def check_source_def)
  then have "replicate_file b k w = (Inl (ValueError ''S3 object not found''), w1)"
    by (simp add: replicate_file_def retrying_raises)
  with ev g show ?thesis
    by (simp add: attempts_def)
qed

theorem source_not_found_single_attempt_witness:
  "fst (head_object ''src'' ''img/logo.png'' (example_world None None []))
     = Inl (ClientError ''404'' ''Not Found'') \<and>
   fst (replicate_file ''src'' ''img/logo.png'' (example_world None None []))
     = Inl (ValueError ''S3 object not found'') \<and>
   attempts (snd (replicate_file ''src'' ''img/logo.png'' (example_world None None []))) = 1"
proof -
  define w where "w = example_world None None []"
  have nf: "fst (head_object ''src'' ''img/logo.png'' w) = Inl (ClientError ''404'' ''Not Found'')"
    by (simp add: w_def ex_defs head_object_def next_fault_def emit_def)
  have "attempts w = 0"
    by (simp add: w_def ex_defs attempts_def)
  with source_not_found_single_attempt[OF nf] nf show ?thesis
    unfolding w_def by auto
qed

text \<open>
  C7, as the code has it. A call that transfers and succeeds returns the text
  \<^verbatim>\<open>Successfully replicated <key> to GCS <bucket name>\<close>: the value is
  fixed by the key and the name of the target bucket alone.
\<close>

theorem replicated_outcome_text:
  assumes run: "replicate_file b k w = (Inr m, w')" and m: "m \<noteq> skipped"
  shows "m = replicated k w"
proof -
  from replicate_file_last_attempt[OF run] obtain w0 where
    env: "gcs_bucket_name w0 = gcs_bucket_name w"
    and f: "replicate_file_body b k w0 = (Inr m, w')"
    by auto
  from body_replicated[OF f] m env show ?thesis
    by (auto simp: skipped_def replicated_def)
qed

theorem replicated_outcome_text_witness:
  "fst (replicate_file ''src'' ''img/logo.png'' (example_world (Some (logo ''f0f'')) None []))
     = Inr ''Successfully replicated img/logo.png to GCS target'' \<and>
   ''Successfully replicated img/logo.png to GCS target'' \<noteq> skipped \<and>
   ''Successfully replicated img/logo.png to GCS target''
     = replicated ''img/logo.png'' (example_world (Some (logo ''f0f'')) None [])"
proof -
  define w where "w = example_world (Some (logo ''f0f'')) None []"
  define m where "m = ''Successfully replicated img/logo.png to GCS target''"
  have run: "fst (replicate_file ''src'' ''img/logo.png'' w) = Inr m"
    by (simp add: w_def m_def ex_defs run_defs)
  then have run': "replicate_file ''src'' ''img/logo.png'' w
      = (Inr m, snd (replicate_file ''src'' ''img/logo.png'' w))"
    by (simp add: prod_eq_iff)
  have ne: "m \<noteq> skipped"
    by (simp add: m_def skipped_def)
  from replicated_outcome_text[OF run' ne] run ne show ?thesis
    unfolding w_def m_def by simp
qed

text \<open>
  C7 as stated fails: two successful transfers of bodies of different length and digest
  return the same value, so the value carries neither.
\<close>

theorem outcome_carries_size_and_digest_counterexample:
  "fst (replicate_file ''src'' ''img/logo.png'' (example_world (Some (logo ''f0f'')) None []))
     = Inr ''Successfully replicated img/logo.png to GCS target'' \<and>
   fst (replicate_file ''src'' ''img/logo.png''
          (example_world (Some \<lparr>ETag = quoted ''f'', ContentType = None, Body = [7]\<rparr>) None []))
     = Inr ''Successfully replicated img/logo.png to GCS target'' \<and>
   gcs_blobs (snd (replicate_file ''src'' ''img/logo.png''
          (example_world (Some (logo ''f0f'')) None []))) ''img/logo.png''
     = Some \<lparr>blob_data = [1, 0, 2], blob_content_type = ''image/png'', md5_hash = Some ''f0f''\<rparr> \<and>
   gcs_blobs (snd (replicate_file ''src'' ''img/logo.png''
          (example_world (Some \<lparr>ETag = quoted ''f'', ContentType = None, Body = [7]\<rparr>) None [])))
        ''img/logo.png''
     = Some \<lparr>blob_data = [7], blob_content_type = ''application/octet-stream'',
             md5_hash = Some ''f''\<rparr>"
  by (simp add: ex_defs run_defs)


text \<open>
  C9. A source object with a multi-part ETag and no blob under the key: when no client
  call fails, the call downloads the body, uploads it and returns the success text without
  comparing digests and without a delete, whatever the digest of the body is.
\<close>

theorem multipart_without_destination_transfers:
  assumes ff: "fault_free w" and obj: "s3_objects w (b, k) = Some obj"
    and mp: "multipart (ETag obj)" and none: "gcs_blobs w k = None"
  shows "\<exists>w' n. replicate_file b k w = (Inr (replicated k w), w') \<and>
           gcs_blobs w' = (gcs_blobs w)(k \<mapsto> \<lparr>blob_data = Body obj,
               blob_content_type = content_type_of obj,
               md5_hash = Some (md5_hexdigest w (Body obj))\<rparr>) \<and>
           events w' = events w @
             [LogStarting, S3Head b k, LogMultipartETag, GcsExists k, S3Get b k] @
             replicate n S3Read @ [GcsUpload k, LogUploaded, LogComplete]"
proof -
  have need: "transfer_needed (strip_quotes (ETag obj)) (gcs_blobs w k)"
    by (simp add: none transfer_needed_def)
  from body_transfer_fault_free[OF ff obj need] mp none obtain w' n where
    f: "replicate_file_body b k w = (Inr (replicated k w), w')"
    and g: "gcs_blobs w' = (gcs_blobs w)(k \<mapsto> \<lparr>blob_data = Body obj,
               blob_content_type = content_type_of obj,
               md5_hash = Some (md5_hexdigest w (Body obj))\<rparr>)"
    and ev: "events w' = events w @
             [LogStarting, S3Head b k, LogMultipartETag, GcsExists k, S3Get b k] @
             replicate n S3Read @ [GcsUpload k, LogUploaded, LogComplete]"
    by auto
  from f have "replicate_file b k w = (Inr (replicated k w), w')"
    by (simp add: replicate_file_def retrying_returns)
  with g ev show ?thesis
    by blast
qed

theorem multipart_without_destination_transfers_witness:
  "fault_free (example_world (Some (logo ''ffff-2'')) None []) \<and>
   s3_objects (example_world (Some (logo ''ffff-2'')) None []) (''src'', ''img/logo.png'')
     = Some (logo ''ffff-2'') \<and>
   multipart (ETag (logo ''ffff-2'')) \<and>
   gcs_blobs (example_world (Some (logo ''ffff-2'')) None []) ''img/logo.png'' = None \<and>
   (\<exists>w'. replicate_file ''src'' ''img/logo.png'' (example_world (Some (logo ''ffff-2'')) None [])
       = (Inr ''Successfully replicated img/logo.png to GCS target'', w') \<and>
      gcs_blobs w' ''img/logo.png'' = Some \<lparr>blob_data = [1, 0, 2],
         blob_content_type = ''image/png'', md5_hash = Some ''f0f''\<rparr>)"
proof -
  define w where "w = example_world (Some (logo ''ffff-2'')) None []"
  have ff: "fault_free w"
    by (simp add: w_def fault_free_def ex_defs)
  have obj: "s3_objects w (''src'', ''img/logo.png'') = Some (logo ''ffff-2'')"
    by (simp add: w_def ex_defs)
  have mp: "multipart (ETag (logo ''ffff-2''))"
    by (simp add: multipart_def ex_defs)
  have none: "gcs_blobs w ''img/logo.png'' = None"
    by (simp add: w_def ex_defs)
  have vals: "replicated ''img/logo.png'' w = ''Successfully replicated img/logo.png to GCS target''"
    "Body (logo ''ffff-2'') = [1, 0, 2]" "content_type_of (logo ''ffff-2'') = ''image/png''"
    "md5_hexdigest w [1, 0, 2] = ''f0f''"
    by (simp_all add: w_def replicated_def content_type_of_def ex_defs)
  from multipart_without_destination_transfers[OF ff obj mp none] ff obj mp none vals
  show ?thesis
    unfolding w_def[symmetric] by auto
qed

text \<open>
  C10. Whenever an attempt reaches the upload and \<^verbatim>\<open>upload_from_file\<close> raises,
  whatever the exception, the call ends with that exception wrapped in the upload error
  and is not retried. From the start of the attempt to its end no delete is issued: the
  last store call is the failed upload, only the log line follows it, and the destination
  is as it was before the attempt.
\<close>

theorem upload_failure_no_delete:
  assumes src: "check_source b k (emit LogStarting w) = (Inr s3_etag, w1)"
    and dst: "check_destination k s3_etag w1 = (Inr False, w2)"
    and dl: "download b k w2 = (Inr (content_type, hasher, spool), w3)"
    and up: "upload_from_file k spool content_type w3 = (Inl e, w4)"
  shows "replicate_file b k w
           = (Inl (ValueError (''Upload error: '' @ exn_str e)), emit LogUploadFailed w4) \<and>
         quiet w (emit LogUploadFailed w4) \<and>
         gcs_blobs (emit LogUploadFailed w4) = gcs_blobs w \<and>
         events (emit LogUploadFailed w4) = events w3 @ [GcsUpload k, LogUploadFailed]"
proof -
  have u: "upload k spool content_type w3
      = (Inl (ValueError (''Upload error: '' @ exn_str e)), emit LogUploadFailed w4)"
    by (simp add: upload_def up)
  then have f: "replicate_file_body b k w
      = (Inl (ValueError (''Upload error: '' @ exn_str e)), emit LogUploadFailed w4)"
    by (simp add: replicate_file_body_def src dst dl)
  then have "replicate_file b k w
      = (Inl (ValueError (''Upload error: '' @ exn_str e)), emit LogUploadFailed w4)"
    by (simp add: replicate_file_def retrying_raises)
  moreover from body_upload_failed[OF f]
  have "quiet w (emit LogUploadFailed w4)" "gcs_blobs (emit LogUploadFailed w4) = gcs_blobs w"
    by simp_all
  moreover from upload_result[OF u]
  have "events (emit LogUploadFailed w4) = events w3 @ [GcsUpload k, LogUploadFailed]"
    by simp
  ultimately show ?thesis
    by simp
qed

theorem upload_failure_no_delete_witness:
  "fst (upload_from_file ''img/logo.png'' [1, 0, 2] ''image/png''
     (snd (download ''src'' ''img/logo.png''
       (snd (check_destination ''img/logo.png'' ''f0f''
         (snd (check_source ''src'' ''img/logo.png''
           (emit LogStarting (example_world (Some (logo ''f0f'')) None
              [None, None, None, None, None, Some (LibraryFault ''Connection reset'')])))))))))
     = Inl (OtherException ''Connection reset'') \<and>
   fst (replicate_file ''src'' ''img/logo.png'' (example_world (Some (logo ''f0f'')) None
      [None, None, None, None, None, Some (LibraryFault ''Connection reset'')]))
     = Inl (ValueError ''Upload error: Connection reset'') \<and>
   events (snd (replicate_file ''src'' ''img/logo.png'' (example_world (Some (logo ''f0f'')) None
      [None, None, None, None, None, Some (LibraryFault ''Connection reset'')])))
     = [LogStarting, S3Head ''src'' ''img/logo.png'', GcsExists ''img/logo.png'',
        S3Get ''src'' ''img/logo.png'', S3Read, S3Read, GcsUpload ''img/logo.png'',
        LogUploadFailed] \<and>
   gcs_blobs (snd (replicate_file ''src'' ''img/logo.png'' (example_world (Some (logo ''f0f'')) None
      [None, None, None, None, None, Some (LibraryFault ''Connection reset'')]))) ''img/logo.png''
     = None"
proof -
  define w where "w = example_world (Some (logo ''f0f'')) None
      [None, None, None, None, None, Some (LibraryFault ''Connection reset'')]"
  define w1 where "w1 = snd (check_source ''src'' ''img/logo.png'' (emit LogStarting w))"
  define w2 where "w2 = snd (check_destination ''img/logo.png'' ''f0f'' w1)"
  define w3 where "w3 = snd (download ''src'' ''img/logo.png'' w2)"
  define w4 where "w4 = snd (upload_from_file ''img/logo.png'' [1, 0, 2] ''image/png'' w3)"
  have src: "check_source ''src'' ''img/logo.png'' (emit LogStarting w) = (Inr ''f0f'', w1)"
    unfolding w1_def by (simp add: prod_eq_iff) (simp add: w_def ex_defs run_defs)
  have dst: "check_destination ''img/logo.png'' ''f0f'' w1 = (Inr False, w2)"
    unfolding w2_def by (simp add: prod_eq_iff) (simp add: w1_def w_def ex_defs run_defs)
  have dl: "download ''src'' ''img/logo.png'' w2 = (Inr (''image/png'', [1, 0, 2], [1, 0, 2]), w3)"
    unfolding w3_def by (simp add: prod_eq_iff) (simp add: w2_def w1_def w_def ex_defs run_defs)
  have upf: "fst (upload_from_file ''img/logo.png'' [1, 0, 2] ''image/png'' w3)
      = Inl (OtherException ''Connection reset'')"
    by (simp add: w3_def w2_def w1_def w_def ex_defs run_defs)
  then have up: "upload_from_file ''img/logo.png'' [1, 0, 2] ''image/png'' w3
      = (Inl (OtherException ''Connection reset''), w4)"
    unfolding w4_def by (simp add: prod_eq_iff)
  have ev3: "events w3 = [LogStarting, S3Head ''src'' ''img/logo.png'', GcsExists ''img/logo.png'',
        S3Get ''src'' ''img/logo.png'', S3Read, S3Read]"
    by (simp add: w3_def w2_def w1_def w_def ex_defs run_defs)
  have g: "gcs_blobs w ''img/logo.png'' = None"
    by (simp add: w_def ex_defs)
  from upload_failure_no_delete[OF src dst dl up] upf ev3 g show ?thesis
    unfolding w3_def w2_def w1_def w_def by simp
qed

text \<open>
  C5 at the failing input: a transient error of the destination upload. The source object
  is sound and every other call succeeds, yet the call ends after a single attempt with
  the wrapped upload error. The same error raised by \<^verbatim>\<open>gcs_blob.exists()\<close> in
  every attempt is retried up to the third attempt, where the decorator gives up; that no
  call ever makes a fourth attempt is \<open>retry_budget\<close>.
\<close>

theorem upload_fault_not_retried:
  "fst (replicate_file ''src'' ''img/logo.png'' (example_world (Some (logo ''f0f'')) None
      [None, None, None, None, None, Some (ServiceFault ''503'' ''Service Unavailable'')]))
    = Inl (ValueError ''Upload error: Service Unavailable'') \<and>
   attempts (snd (replicate_file ''src'' ''img/logo.png'' (example_world (Some (logo ''f0f'')) None
      [None, None, None, None, None, Some (ServiceFault ''503'' ''Service Unavailable'')]))) = 1 \<and>
   fst (replicate_file ''src'' ''img/logo.png'' (example_world (Some (logo ''f0f'')) None
      [None, Some (ServiceFault ''503'' ''Service Unavailable''),
       None, Some (ServiceFault ''503'' ''Service Unavailable''),
       None, Some (ServiceFault ''503'' ''Service Unavailable'')]))
    = Inl (RetryError (GoogleAPIError ''Service Unavailable'')) \<and>
   attempts (snd (replicate_file ''src'' ''img/logo.png'' (example_world (Some (logo ''f0f'')) None
      [None, Some (ServiceFault ''503'' ''Service Unavailable''),
       None, Some (ServiceFault ''503'' ''Service Unavailable''),
       None, Some (ServiceFault ''503'' ''Service Unavailable'')]))) = 3"
  by (simp add: ex_defs run_defs attempts_def)

end
